theory Spec2Isabelle
  imports Main "HOL-Library.Sublist"
begin

section \<open>Dialog Variations: the \<open>notice\<close> dialog builder of \<open>ui-dialog-variations/main.js\<close>\<close>

text \<open>
  The plugin has one builder, \<open>notice\<close>, and six thin constructors over it
  (\<open>alert\<close>, \<open>alertWithAppIcon\<close>, \<open>error\<close>, \<open>confirm\<close>, \<open>warning\<close>, \<open>prompt\<close>).
  \<open>notice\<close> assembles the markup of a \<open><dialog>\<close> as a template string, records which
  button stands for OK and which for Cancel, attaches the handlers, shows the dialog
  modally and removes it again.

  The model follows the source statement by statement. The markup is a \<open>string\<close>,
  exactly the text assigned to \<open>dialog.innerHTML\<close>. What belongs to the host and not to
  this file is a parameter of the model: the outcome of reading the manifest, whether
  \<open>document.appendChild\<close> throws, what the user does with the open dialog, and which
  elements the host's HTML parser finds in the markup. The strings of the request go
  into the markup unescaped, so a title, message, placeholder or label can hide the form
  or a button from the parser; the assignments to \<open>form.onsubmit\<close> and \<open>button.onclick\<close>
  then throw a \<open>TypeError\<close>. \<open>notice_parsed\<close> is \<open>notice\<close> with these lookups, for any parser;
  \<open>notice_dialog\<close> and \<open>notice\<close> are the function on markup in which the lookups find the
  form and the buttons, where the two agree.
\<close>

subsection \<open>Data\<close>

text \<open>A button description \<open>{label, type, variant}\<close>; the source compares \<open>type\<close> and
  \<open>variant\<close> as strings.\<close>

record button =
  label :: string
  type' :: string
  variant :: string

text \<open>The destructured first parameter of \<open>notice\<close>. A field that the caller may leave
  out (\<open>undefined\<close>) is an \<open>option\<close>; \<open>msgs\<close> is documented as required, but nothing in the
  source stops a caller from leaving it out, so it is an \<open>option\<close> too.\<close>

record params =
  title :: string
  icon :: "string option"
  msgs :: "string list option"
  prompt :: "string option"
  isError :: bool
  buttons :: "button list option"

text \<open>The object \<open>{which, value}\<close> that the promise resolves to.\<close>

record result =
  which :: int
  value' :: string

datatype js_error = TypeError | HostError | DOMError | ModalRejected

text \<open>Truthiness of an optional string: \<open>undefined\<close> and the empty string are falsy.\<close>

definition truthy :: "string option \<Rightarrow> bool" where
  "truthy s = (case s of None \<Rightarrow> False | Some v \<Rightarrow> v \<noteq> [])"

subsection \<open>Strings: numbers in template literals, \<open>Array.prototype.join\<close>\<close>

definition digit_char :: "nat \<Rightarrow> char" where
  "digit_char n = ''0123456789'' ! (n mod 10)"

text \<open>A non-negative integer as a template literal prints it: in decimal. (From
  \<open>1e21\<close> on JavaScript prints a number in exponent form; the widths, icon sizes and
  button indices that go through here are far below that.)\<close>

function number_to_string :: "nat \<Rightarrow> string" where
  "number_to_string n =
     (if n < 10 then [digit_char n] else number_to_string (n div 10) @ [digit_char n])"
  by pat_completeness auto
termination
  by (relation "measure id") auto

declare number_to_string.simps [simp del]

text \<open>\<open>xs.join(sep)\<close> on an array of strings.\<close>

fun join :: "string \<Rightarrow> string list \<Rightarrow> string" where
  "join sep [] = []"
| "join sep [x] = x"
| "join sep (x # y # ys) = x @ sep @ join sep (y # ys)"

text \<open>An array interpolated into a template literal is converted by \<open>toString\<close>, which
  joins the elements with a comma.\<close>

definition array_to_string :: "string list \<Rightarrow> string" where
  "array_to_string xs = join '','' xs"

text \<open>\<open>xs.map((x, idx) => f(x, idx))\<close>: the callback receives the element and its index.\<close>

fun map_idx :: "nat \<Rightarrow> (nat \<Rightarrow> 'a \<Rightarrow> 'b) \<Rightarrow> 'a list \<Rightarrow> 'b list" where
  "map_idx idx f [] = []"
| "map_idx idx f (x # xs) = f idx x # map_idx (Suc idx) f xs"

subsection \<open>The app icon (lines 35-52)\<close>

text \<open>What the host answers when the manifest is read, one constructor for each way
  through the \<open>try\<close> block: \<open>getPluginFolder\<close> rejects, \<open>getEntry\<close> rejects, \<open>getEntry\<close>
  yields nothing, \<open>read\<close> rejects, \<open>JSON.parse\<close> throws (or yields a value whose \<open>icon\<close>
  cannot be read), or the manifest is parsed and its \<open>icon\<close> field is the given optional
  string.\<close>

datatype manifest_env =
    GetPluginFolderFails
  | GetEntryFails
  | NoManifestFile
  | ReadFails
  | ParseFails
  | Parsed "string option"

text \<open>The body of the \<open>try\<close>: the new values of \<open>icon\<close> and \<open>iconSize\<close>, or the error
  thrown.\<close>

definition try_app_icon ::
  "manifest_env \<Rightarrow> string option \<Rightarrow> nat \<Rightarrow> js_error + (string option \<times> nat)" where
  "try_app_icon env ic iconSize =
     (case env of
        GetPluginFolderFails \<Rightarrow> Inl HostError
      | GetEntryFails \<Rightarrow> Inl HostError
      | NoManifestFile \<Rightarrow> Inr (ic, iconSize)
      | ReadFails \<Rightarrow> Inl HostError
      | ParseFails \<Rightarrow> Inl TypeError
      | Parsed iconName \<Rightarrow>
          if truthy iconName then Inr (iconName, 32) else Inr (ic, iconSize))"

text \<open>The \<open>if (icon === 'app-icon')\<close> statement with its \<open>catch\<close>, which does nothing.\<close>

definition app_icon :: "manifest_env \<Rightarrow> string option \<Rightarrow> nat \<Rightarrow> string option \<times> nat" where
  "app_icon env ic iconSize =
     (if ic = Some ''app-icon''
      then (case try_app_icon env ic iconSize of
              Inl err \<Rightarrow> (ic, iconSize)
            | Inr changed \<Rightarrow> changed)
      else (ic, iconSize))"

subsection \<open>The markup (lines 55-94)\<close>

definition style_html :: "nat \<Rightarrow> nat \<Rightarrow> bool \<Rightarrow> string" where
  "style_html width iconSize isErr =
     ''<style>\<newline>'' @
     ''    form {\<newline>'' @
     ''        width: '' @ number_to_string width @ ''px;\<newline>'' @
     ''    }\<newline>'' @
     ''    form h1 {\<newline>'' @
     ''        display: flex;\<newline>'' @
     ''        flex-direction: row;\<newline>'' @
     ''        justify-content: space-between;\<newline>'' @
     ''        align-items: center;\<newline>'' @
     ''        '' @ (if isErr then ''color: #D7373F'' else []) @ ''\<newline>'' @
     ''    }\<newline>'' @
     ''    form h1 img {\<newline>'' @
     ''        width: '' @ number_to_string iconSize @ ''px;\<newline>'' @
     ''        height: '' @ number_to_string iconSize @ ''px;\<newline>'' @
     ''        flex: 0 0 '' @ number_to_string iconSize @ ''px;\<newline>'' @
     ''    }\<newline>'' @
     ''</style>\<newline>''"

text \<open>The image element of the header, written only when \<open>icon\<close> is truthy.\<close>

definition img_html :: "string option \<Rightarrow> string" where
  \<open>img_html ic =
     (case ic of
        None \<Rightarrow> []
      | Some src \<Rightarrow> if src \<noteq> [] then ''<img src="'' @ src @ ''" />'' else [])\<close>

definition header_html :: "string \<Rightarrow> string option \<Rightarrow> string" where
  "header_html ttl ic =
     ''    <h1>\<newline>'' @
     ''        <span>'' @ ttl @ ''</span>\<newline>'' @
     ''        '' @ img_html ic @ ''\<newline>'' @
     ''    </h1>\<newline>''"

text \<open>One message: \<open>msg.substr(0, 4) === "http"\<close> chooses between a link and a
  paragraph.\<close>

definition msg_html :: "string \<Rightarrow> string" where
  \<open>msg_html msg =
     (if take 4 msg = ''http''
      then ''<a href="'' @ msg @ ''">'' @ msg @ ''</a>''
      else ''<p>'' @ msg @ ''</p>'')\<close>

definition msgs_html :: "string list \<Rightarrow> string" where
  "msgs_html ms = join [] (map msg_html ms)"

definition prompt_html :: "string option \<Rightarrow> string" where
  \<open>prompt_html p =
     (case p of
        None \<Rightarrow> []
      | Some placeholder \<Rightarrow>
          if placeholder \<noteq> []
          then ''\<newline>'' @
               ''                <label>\<newline>'' @
               ''                    <input type="text" id="prompt" placeholder="'' @ placeholder @ ''" />\<newline>'' @
               ''                </label>\<newline>'' @
               ''            ''
          else [])\<close>

definition button_html :: "nat \<Rightarrow> button \<Rightarrow> string" where
  \<open>button_html idx b =
     ''<button id="btn'' @ number_to_string idx @ ''" type="'' @ type' b @
     ''" uxp-variant="'' @ variant b @ ''">'' @ label b @ ''</button>''\<close>

text \<open>The footer interpolates the array that \<open>buttons.map\<close> returns, with no \<open>join\<close>.\<close>

definition buttons_html :: "button list \<Rightarrow> string" where
  "buttons_html bs = array_to_string (map_idx 0 button_html bs)"

definition footer_html :: "button list \<Rightarrow> string" where
  "footer_html bs =
     ''    <footer>\<newline>'' @
     ''        '' @ buttons_html bs @ ''\<newline>'' @
     ''    </footer>\<newline>''"

text \<open>The whole template literal assigned to \<open>dialog.innerHTML\<close>.\<close>

definition dialog_html ::
  "string \<Rightarrow> string option \<Rightarrow> string list \<Rightarrow> string option \<Rightarrow> bool \<Rightarrow> button list \<Rightarrow>
   nat \<Rightarrow> nat \<Rightarrow> string" where
  \<open>dialog_html ttl ic ms p isErr bs width iconSize =
     ''\<newline>'' @
     style_html width iconSize isErr @
     ''<form method="dialog">\<newline>'' @
     header_html ttl ic @
     ''    '' @ msgs_html ms @ ''\<newline>'' @
     ''    '' @ prompt_html p @ ''\<newline>'' @
     footer_html bs @
     ''</form>\<newline>'' @
     ''    ''\<close>

subsection \<open>Wiring the handlers (lines 96-112)\<close>

text \<open>The condition under which the loop takes a button as the OK button.\<close>

definition is_ok_button :: "button \<Rightarrow> bool" where
  "is_ok_button b = (type' b = ''submit'' \<or> variant b = ''cta'')"

definition is_cancel_button :: "button \<Rightarrow> bool" where
  "is_cancel_button b = (type' b = ''reset'')"

text \<open>\<open>buttons.forEach\<close>: the state is the pair \<open>(okButtonIdx, cancelButtonIdx)\<close>, which
  every matching button overwrites with its own index.\<close>

fun forEach_button :: "nat \<Rightarrow> button list \<Rightarrow> int \<times> int \<Rightarrow> int \<times> int" where
  "forEach_button idx [] (okButtonIdx, cancelButtonIdx) = (okButtonIdx, cancelButtonIdx)"
| "forEach_button idx (b # bs) (okButtonIdx, cancelButtonIdx) =
     forEach_button (Suc idx) bs
       (if is_ok_button b then int idx else okButtonIdx,
        if is_cancel_button b then int idx else cancelButtonIdx)"

text \<open>The dialog element once it is built and wired: its markup, the two indices as the
  loop leaves them (the handlers read the variables when they run, after the loop), the
  \<open>prompt\<close> the handlers close over, and the number of buttons that got a click handler.\<close>

record dialog =
  innerHTML :: string
  okButtonIdx :: int
  cancelButtonIdx :: int
  promptOf :: "string option"
  buttonCount :: nat

text \<open>\<open>form.onsubmit\<close> and \<open>button.onclick\<close> of button \<open>idx\<close>. The argument \<open>typed\<close> is
  the value of the text input at that moment, \<open>dialog.querySelector("#prompt").value\<close>;
  it is read only when \<open>prompt\<close> is truthy. Each returns the object given to
  \<open>dialog.close\<close>. A click handler calls \<open>e.preventDefault()\<close> first, so a click on a
  button, whatever its type, does not submit the form.\<close>

definition onsubmit :: "dialog \<Rightarrow> string \<Rightarrow> result" where
  "onsubmit dlg typed =
     \<lparr>which = okButtonIdx dlg, value' = (if truthy (promptOf dlg) then typed else [])\<rparr>"

definition onclick :: "dialog \<Rightarrow> nat \<Rightarrow> string \<Rightarrow> result" where
  "onclick dlg idx typed =
     \<lparr>which = int idx, value' = (if truthy (promptOf dlg) then typed else [])\<rparr>"

text \<open>The default of the \<open>buttons\<close> parameter, which JavaScript takes when the caller
  passes \<open>undefined\<close> (and only then).\<close>

definition default_buttons :: "button list" where
  "default_buttons = [\<lparr>label = ''Close'', type' = ''submit'', variant = ''cta''\<rparr>]"

definition buttons_or_default :: "button list option \<Rightarrow> button list" where
  "buttons_or_default bs = (case bs of None \<Rightarrow> default_buttons | Some given \<Rightarrow> given)"

text \<open>Lines 35-112 of \<open>notice\<close>: everything before the dialog is shown. \<open>msgs.map\<close> throws
  a \<open>TypeError\<close> when \<open>msgs\<close> is \<open>undefined\<close>. Here the lookups of the form and of the
  buttons find their elements; \<open>notice_dialog_parsed\<close> below makes them.\<close>

definition notice_dialog :: "params \<Rightarrow> nat \<Rightarrow> nat \<Rightarrow> manifest_env \<Rightarrow> js_error + dialog" where
  "notice_dialog p width iconSize env =
     (let (ic, iconSize') = app_icon env (icon p) iconSize;
          bs = buttons_or_default (buttons p)
      in case msgs p of
           None \<Rightarrow> Inl TypeError
         | Some ms \<Rightarrow>
             let (ok, cancel) = forEach_button 0 bs (- 1, - 1)
             in Inr \<lparr>innerHTML = dialog_html (title p) ic ms (prompt p) (isError p) bs width iconSize',
                     okButtonIdx = ok,
                     cancelButtonIdx = cancel,
                     promptOf = prompt p,
                     buttonCount = length bs\<rparr>)"

subsection \<open>The document and the host\<close>

text \<open>The document holds its child nodes by identity; \<open>createElement\<close> makes a node that
  is in no document yet.\<close>

record dom =
  children :: "nat list"
  nextNode :: nat

definition createElement :: "dom \<Rightarrow> nat \<times> dom" where
  "createElement d = (nextNode d, d\<lparr>nextNode := Suc (nextNode d)\<rparr>)"

definition appendChild :: "nat \<Rightarrow> dom \<Rightarrow> dom" where
  "appendChild node d = d\<lparr>children := children d @ [node]\<rparr>"

text \<open>\<open>node.remove()\<close>: the node leaves its parent; nothing happens when it has none.\<close>

definition remove_node :: "nat \<Rightarrow> dom \<Rightarrow> dom" where
  "remove_node node d = d\<lparr>children := removeAll node (children d)\<rparr>"

text \<open>What the user does with the open dialog: the form is submitted (enter in the
  text input) while the input holds \<open>typed\<close>, button \<open>idx\<close> is clicked while the input
  holds \<open>typed\<close>, or the dialog is dismissed by the host with no handler running.\<close>

datatype interaction =
    FormSubmit string
  | ButtonClick nat string
  | Dismiss

record host =
  manifest :: manifest_env
  appendThrows :: bool
  user :: interaction

text \<open>Modelled from the spec: the host's modal display primitive \<open>dialog.showModal()\<close>,
  which is not code of this repository. It "returns a promise resolving/rejecting with a
  caller-supplied result object when the surface is closed": the promise resolves with
  the object a handler gave to \<open>dialog.close\<close>, and rejects when the dialog is dismissed
  without one. A click on a button that the dialog does not have runs no handler.\<close>

definition showModal :: "dialog \<Rightarrow> interaction \<Rightarrow> js_error + result" where
  "showModal dlg act =
     (case act of
        FormSubmit typed \<Rightarrow> Inr (onsubmit dlg typed)
      | ButtonClick idx typed \<Rightarrow>
          if idx < buttonCount dlg then Inr (onclick dlg idx typed) else Inl ModalRejected
      | Dismiss \<Rightarrow> Inl ModalRejected)"

subsection \<open>\<open>notice\<close> (lines 22-122)\<close>

text \<open>The body of the final \<open>try\<close>: \<open>document.appendChild(dialog)\<close>, then
  \<open>await dialog.showModal()\<close>.\<close>

definition try_show :: "dialog \<Rightarrow> nat \<Rightarrow> host \<Rightarrow> dom \<Rightarrow> (js_error + result) \<times> dom" where
  "try_show dlg node h d =
     (if appendThrows h then (Inl DOMError, d)
      else (showModal dlg (user h), appendChild node d))"

text \<open>\<open>notice\<close> returns what its promise settles to, \<open>Inl\<close> for a rejection, and the
  document it leaves. The \<open>catch\<close> answers every error of the \<open>try\<close> with
  \<open>{which: cancelButtonIdx, value: ""}\<close>; the \<open>finally\<close> removes the dialog.\<close>

definition notice :: "params \<Rightarrow> nat \<Rightarrow> nat \<Rightarrow> host \<Rightarrow> dom \<Rightarrow> (js_error + result) \<times> dom" where
  "notice p width iconSize h d =
     (let (node, d1) = createElement d
      in case notice_dialog p width iconSize (manifest h) of
           Inl err \<Rightarrow> (Inl err, d1)
         | Inr dlg \<Rightarrow>
             let (outcome, d2) = try_show dlg node h d1;
                 res = (case outcome of
                          Inl err \<Rightarrow> \<lparr>which = cancelButtonIdx dlg, value' = []\<rparr>
                        | Inr r \<Rightarrow> r)
             in (Inr res, remove_node node d2))"

subsection \<open>The constructors (lines 130-167)\<close>

text \<open>\<open>buttons[i]\<close> as a template literal prints it: the label, or \<open>undefined\<close> when the
  array is too short.\<close>

definition label_at :: "string list \<Rightarrow> nat \<Rightarrow> string" where
  "label_at labels i = (if i < length labels then labels ! i else ''undefined'')"

text \<open>The default \<open>buttons = [ "Cancel", "OK" ]\<close> of \<open>confirm\<close>, \<open>warning\<close> and \<open>prompt\<close>.\<close>

definition labels_or_default :: "string list option \<Rightarrow> string list" where
  "labels_or_default labels = (case labels of None \<Rightarrow> [''Cancel'', ''OK''] | Some given \<Rightarrow> given)"

definition alert :: "string \<Rightarrow> string list \<Rightarrow> host \<Rightarrow> dom \<Rightarrow> (js_error + result) \<times> dom" where
  "alert ttl ms =
     notice \<lparr>title = ttl, icon = None, msgs = Some ms, prompt = None, isError = False,
             buttons = None\<rparr> 360 14"

definition alertWithAppIcon ::
  "string \<Rightarrow> string list \<Rightarrow> host \<Rightarrow> dom \<Rightarrow> (js_error + result) \<times> dom" where
  "alertWithAppIcon ttl ms =
     notice \<lparr>title = ttl, icon = Some ''app-icon'', msgs = Some ms, prompt = None,
             isError = False, buttons = None\<rparr> 360 14"

definition error :: "string \<Rightarrow> string list \<Rightarrow> host \<Rightarrow> dom \<Rightarrow> (js_error + result) \<times> dom" where
  "error ttl ms =
     notice \<lparr>title = ttl, icon = Some ''assets/alert-red.png'', msgs = Some ms, prompt = None,
             isError = True, buttons = None\<rparr> 360 14"

definition confirm_params :: "string \<Rightarrow> string \<Rightarrow> string list option \<Rightarrow> params" where
  "confirm_params ttl msg labels =
     \<lparr>title = ttl, icon = None, msgs = Some [msg], prompt = None, isError = False,
      buttons = Some
        [\<lparr>label = label_at (labels_or_default labels) 0, type' = ''reset'', variant = ''primary''\<rparr>,
         \<lparr>label = label_at (labels_or_default labels) 1, type' = ''submit'', variant = ''cta''\<rparr>]\<rparr>"






subsection \<open>The element lookups (lines 98 and 101)\<close>







subsection \<open>A parser that knows comments\<close>




subsection \<open>How the host reads the markup of one message\<close>





subsection \<open>Notions the properties are stated with\<close>

text \<open>The loop \<open>forEach_button\<close> for one of its two variables: the index of the last
  element that satisfies \<open>P\<close>, counted from \<open>k\<close>, or the start value \<open>r\<close>.\<close>

fun last_from :: "('a \<Rightarrow> bool) \<Rightarrow> nat \<Rightarrow> 'a list \<Rightarrow> int \<Rightarrow> int" where
  "last_from P k [] r = r"
| "last_from P k (x # xs) r = last_from P (Suc k) xs (if P x then int k else r)"


section \<open>Properties\<close>

subsection \<open>Joining and indexing\<close>

lemma join_empty_sep: "join [] xs = concat xs"
  by (induction "[] :: string" xs rule: join.induct) simp_all

lemma join_append:
  "xs \<noteq> [] \<Longrightarrow> ys \<noteq> [] \<Longrightarrow> join sep (xs @ ys) = join sep xs @ sep @ join sep ys"
proof (induction sep xs rule: join.induct)
  case (1 sep)
  then show ?case by simp
next
  case (2 sep x)
  then show ?case by (cases ys) simp_all
next
  case (3 sep x y zs)
  then show ?case by simp
qed

lemma join_pair_inside:
  assumes "Suc i < length xs"
  shows "\<exists>pre post. join sep xs = pre @ xs ! i @ sep @ xs ! Suc i @ post"
proof -
  define us where "us = take i xs"
  define vs where "vs = drop (Suc (Suc i)) xs"
  have split: "xs = us @ [xs ! i, xs ! Suc i] @ vs"
    using assms unfolding us_def vs_def
    by (metis Cons_nth_drop_Suc Suc_lessD append_Cons append_Nil append_take_drop_id)
  have mid: "join sep ([xs ! i, xs ! Suc i] @ vs) =
      xs ! i @ sep @ xs ! Suc i @ (if vs = [] then [] else sep @ join sep vs)"
    by (cases vs) simp_all
  show ?thesis
  proof (cases "us = []")
    case True
    then have "join sep xs =
        [] @ xs ! i @ sep @ xs ! Suc i @ (if vs = [] then [] else sep @ join sep vs)"
      using split mid by simp
    then show ?thesis by blast
  next
    case False
    then have "join sep xs = join sep us @ sep @ join sep ([xs ! i, xs ! Suc i] @ vs)"
      using split join_append [of us "[xs ! i, xs ! Suc i] @ vs" sep] by simp
    then have "join sep xs =
        (join sep us @ sep) @ xs ! i @ sep @ xs ! Suc i @ (if vs = [] then [] else sep @ join sep vs)"
      using mid by simp
    then show ?thesis by blast
  qed
qed

lemma length_map_idx: "length (map_idx k f xs) = length xs"
  by (induction xs arbitrary: k) simp_all

lemma nth_map_idx: "i < length xs \<Longrightarrow> map_idx k f xs ! i = f (k + i) (xs ! i)"
proof (induction xs arbitrary: k i)
  case Nil
  then show ?case by simp
next
  case (Cons x xs)
  then show ?case by (cases i) simp_all
qed

lemma concat_nth_inside:
  assumes "i < length xs"
  shows "concat xs = concat (take i xs) @ xs ! i @ concat (drop (Suc i) xs)"
proof -
  have "xs = take i xs @ xs ! i # drop (Suc i) xs"
    using assms by (simp add: id_take_nth_drop)
  then have "concat xs = concat (take i xs @ xs ! i # drop (Suc i) xs)"
    by simp
  then show ?thesis by simp
qed

subsection \<open>The loop over the buttons\<close>

lemma forEach_button_last_from:
  "forEach_button k bs (ok, cancel) =
     (last_from is_ok_button k bs ok, last_from is_cancel_button k bs cancel)"
  by (induction bs arbitrary: k ok cancel) simp_all



subsection \<open>What \<open>notice\<close> builds and returns\<close>

lemma notice_dialog_Some:
  assumes "msgs p = Some ms"
  shows "notice_dialog p w s env =
     Inr \<lparr>innerHTML = dialog_html (title p) (fst (app_icon env (icon p) s)) ms (prompt p)
                        (isError p) (buttons_or_default (buttons p)) w
                        (snd (app_icon env (icon p) s)),
          okButtonIdx = last_from is_ok_button 0 (buttons_or_default (buttons p)) (- 1),
          cancelButtonIdx = last_from is_cancel_button 0 (buttons_or_default (buttons p)) (- 1),
          promptOf = prompt p,
          buttonCount = length (buttons_or_default (buttons p))\<rparr>"
  using assms
  by (simp add: notice_dialog_def forEach_button_last_from Let_def split: prod.splits)

lemma notice_dialog_None: "msgs p = None \<Longrightarrow> notice_dialog p w s env = Inl TypeError"
  by (simp add: notice_dialog_def Let_def split: prod.splits)

lemma notice_dialog_Inr_msgs:
  "notice_dialog p w s env = Inr dlg \<Longrightarrow> \<exists>ms. msgs p = Some ms"
  by (cases "msgs p") (simp_all add: notice_dialog_None)

lemma notice_built:
  assumes "notice_dialog p w s (manifest h) = Inr dlg"
  shows "notice p w s h d =
     (Inr (case fst (try_show dlg (nextNode d) h (d\<lparr>nextNode := Suc (nextNode d)\<rparr>)) of
             Inl err \<Rightarrow> \<lparr>which = cancelButtonIdx dlg, value' = []\<rparr>
           | Inr r \<Rightarrow> r),
      remove_node (nextNode d)
        (snd (try_show dlg (nextNode d) h (d\<lparr>nextNode := Suc (nextNode d)\<rparr>))))"
  using assms by (simp add: notice_def createElement_def Let_def split: prod.splits)

lemma notice_not_built:
  assumes "notice_dialog p w s (manifest h) = Inl e"
  shows "notice p w s h d = (Inl e, d\<lparr>nextNode := Suc (nextNode d)\<rparr>)"
  using assms by (simp add: notice_def createElement_def)

subsection \<open>Parts of the markup\<close>


lemma dialog_html_msgs:
  "\<exists>pre post. dialog_html ttl ic ms p isErr bs w s = pre @ msgs_html ms @ post"
proof -
  have "dialog_html ttl ic ms p isErr bs w s =
      (''\<newline>'' @ style_html w s isErr @ ''<form method=\"dialog\">\<newline>'' @ header_html ttl ic @ ''    '')
      @ msgs_html ms @
      (''\<newline>'' @ ''    '' @ prompt_html p @ ''\<newline>'' @ footer_html bs @ ''</form>\<newline>'' @ ''    '')"
    by (simp add: dialog_html_def)
  then show ?thesis by blast
qed

lemma dialog_html_header:
  "\<exists>pre post. dialog_html ttl ic ms p isErr bs w s = pre @ header_html ttl ic @ post"
proof -
  have "dialog_html ttl ic ms p isErr bs w s =
      (''\<newline>'' @ style_html w s isErr @ ''<form method=\"dialog\">\<newline>'')
      @ header_html ttl ic @
      (''    '' @ msgs_html ms @ ''\<newline>'' @ ''    '' @ prompt_html p @ ''\<newline>'' @ footer_html bs @ ''</form>\<newline>'' @ ''    '')"
    by (simp add: dialog_html_def)
  then show ?thesis by blast
qed

lemma dialog_html_buttons:
  "\<exists>pre post. dialog_html ttl ic ms p isErr bs w s = pre @ buttons_html bs @ post"
proof -
  have "dialog_html ttl ic ms p isErr bs w s =
      (''\<newline>'' @ style_html w s isErr @ ''<form method=\"dialog\">\<newline>'' @ header_html ttl ic @
        ''    '' @ msgs_html ms @ ''\<newline>'' @ ''    '' @ prompt_html p @ ''\<newline>'' @
        ''    <footer>\<newline>'' @ ''        '')
      @ buttons_html bs @
      (''\<newline>'' @ ''    </footer>\<newline>'' @ ''</form>\<newline>'' @ ''    '')"
    by (simp add: dialog_html_def footer_html_def)
  then show ?thesis by blast
qed

lemma buttons_html_pair:
  assumes "Suc i < length bs"
  shows "\<exists>pre post. buttons_html bs =
           pre @ button_html i (bs ! i) @ '','' @ button_html (Suc i) (bs ! Suc i) @ post"
proof -
  let ?xs = "map_idx 0 button_html bs"
  have len: "Suc i < length ?xs"
    using assms by (simp add: length_map_idx)
  have "?xs ! i = button_html i (bs ! i)" "?xs ! Suc i = button_html (Suc i) (bs ! Suc i)"
    using assms by (simp_all add: nth_map_idx)
  then show ?thesis
    using join_pair_inside [OF len, of "'',''"] by (simp add: buttons_html_def array_to_string_def)
qed

lemma buttons_html_default:
  \<open>buttons_html default_buttons = ''<button id="btn0" type="submit" uxp-variant="cta">Close</button>''\<close>
  by (simp add: buttons_html_def array_to_string_def default_buttons_def button_html_def
      number_to_string.simps digit_char_def)

subsection \<open>How the promise settles\<close>

lemma notice_resolved:
  assumes "msgs p = Some ms"
  shows "\<exists>dlg. notice_dialog p w s (manifest h) = Inr dlg \<and>
           okButtonIdx dlg = last_from is_ok_button 0 (buttons_or_default (buttons p)) (- 1) \<and>
           cancelButtonIdx dlg = last_from is_cancel_button 0 (buttons_or_default (buttons p)) (- 1) \<and>
           promptOf dlg = prompt p \<and>
           buttonCount dlg = length (buttons_or_default (buttons p)) \<and>
           fst (notice p w s h d) =
             Inr (if appendThrows h then \<lparr>which = cancelButtonIdx dlg, value' = []\<rparr>
                  else case showModal dlg (user h) of
                         Inl err \<Rightarrow> \<lparr>which = cancelButtonIdx dlg, value' = []\<rparr>
                       | Inr r \<Rightarrow> r)"
  using notice_dialog_Some [OF assms, of w s "manifest h"]
  by (simp add: notice_built try_show_def)

subsection \<open>Lookups that find their elements\<close>




subsection \<open>Reading one message\<close>




subsection \<open>The default of \<open>buttons\<close>\<close>

text \<open>A call that leaves \<open>buttons\<close> out builds and returns exactly what a call with the
  list \<open>[{label: "Close", variant: "cta", type: "submit"}]\<close> does.\<close>

lemma omitted_buttons_default_close:
  \<open>notice (p\<lparr>buttons := None\<rparr>) w s h d =
     notice (p\<lparr>buttons := Some [\<lparr>label = ''Close'', type' = ''submit'', variant = ''cta''\<rparr>]\<rparr>) w s h d \<and>
   notice_dialog (p\<lparr>buttons := None\<rparr>) w s env =
     notice_dialog (p\<lparr>buttons := Some [\<lparr>label = ''Close'', type' = ''submit'', variant = ''cta''\<rparr>]\<rparr>) w s env \<and>
   buttons_html (buttons_or_default None) =
     ''<button id="btn0" type="submit" uxp-variant="cta">Close</button>'' \<and>
   forEach_button 0 (buttons_or_default None) (- 1, - 1) = (0, - 1)\<close>
proof -
  have nd: "notice_dialog (p\<lparr>buttons := None\<rparr>) w s e =
     notice_dialog (p\<lparr>buttons := Some [\<lparr>label = ''Close'', type' = ''submit'', variant = ''cta''\<rparr>]\<rparr>) w s e"
    for e
    by (simp add: notice_dialog_def buttons_or_default_def default_buttons_def Let_def
        split: prod.splits option.splits)
  have "notice (p\<lparr>buttons := None\<rparr>) w s h d =
     notice (p\<lparr>buttons := Some [\<lparr>label = ''Close'', type' = ''submit'', variant = ''cta''\<rparr>]\<rparr>) w s h d"
    unfolding notice_def nd ..
  moreover have "forEach_button 0 (buttons_or_default None) (- 1, - 1) = (0, - 1)"
    by (simp add: buttons_or_default_def default_buttons_def is_ok_button_def is_cancel_button_def)
  ultimately show ?thesis
    using nd buttons_html_default by (simp add: buttons_or_default_def)
qed

section \<open>The claims\<close>

text \<open>
  Claim C1, what the code does. The default of \<open>buttons\<close> is a default parameter value
  and stands in only for \<open>undefined\<close>. When the caller supplies a list of length zero the
  footer has no button, no click handler is attached, \<open>okButtonIdx\<close> stays \<open>-1\<close> and a form
  submission resolves with \<open>which = -1\<close>; the same call without \<open>buttons\<close> has the Close
  button and resolves with \<open>which = 0\<close>.
\<close>

theorem C1_empty_buttons_list_no_close_button:
  \<open>buttons_html (buttons_or_default (Some [])) = [] \<and>
   (\<exists>dlg. notice_dialog \<lparr>title = ''T'', icon = None, msgs = Some [''M''], prompt = None,
                          isError = False, buttons = Some []\<rparr> 360 14 (Parsed None) = Inr dlg \<and>
          buttonCount dlg = 0 \<and> okButtonIdx dlg = - 1 \<and> cancelButtonIdx dlg = - 1) \<and>
   fst (notice \<lparr>title = ''T'', icon = None, msgs = Some [''M''], prompt = None, isError = False,
                 buttons = Some []\<rparr> 360 14
          \<lparr>manifest = Parsed None, appendThrows = False, user = FormSubmit []\<rparr>
          \<lparr>children = [], nextNode = 0\<rparr>) = Inr \<lparr>which = - 1, value' = []\<rparr> \<and>
   buttons_html (buttons_or_default None) =
     ''<button id="btn0" type="submit" uxp-variant="cta">Close</button>'' \<and>
   fst (notice \<lparr>title = ''T'', icon = None, msgs = Some [''M''], prompt = None, isError = False,
                 buttons = None\<rparr> 360 14
          \<lparr>manifest = Parsed None, appendThrows = False, user = FormSubmit []\<rparr>
          \<lparr>children = [], nextNode = 0\<rparr>) = Inr \<lparr>which = 0, value' = []\<rparr>\<close>
  by (simp add: notice_def notice_dialog_def createElement_def try_show_def showModal_def
      onsubmit_def truthy_def buttons_or_default_def default_buttons_def is_ok_button_def
      is_cancel_button_def app_icon_def buttons_html_def array_to_string_def button_html_def
      number_to_string.simps digit_char_def)

text \<open>
  Claim C2, what the code does. When \<open>icon\<close> is \<open>'app-icon'\<close> and the manifest cannot be
  found, read or parsed, the call raises no error, but \<open>icon\<close> is left as it was, the string
  \<open>app-icon\<close>, which is truthy: the header is rendered with an image element whose source
  is that string.
\<close>

theorem C2_unresolved_manifest_keeps_sentinel_icon:
  assumes "icon p = Some ''app-icon''" and "msgs p = Some ms"
    and "manifest h \<in> {GetPluginFolderFails, GetEntryFails, NoManifestFile, ReadFails, ParseFails}"
  shows \<open>\<exists>dlg r pre post.
           notice_dialog p w s (manifest h) = Inr dlg \<and>
           fst (notice p w s h d) = Inr r \<and>
           innerHTML dlg = pre @ ''<img src="app-icon" />'' @ post\<close>
proof -
  have "app_icon (manifest h) (icon p) s = (Some ''app-icon'', s)"
    using assms(1,3) by (auto simp: app_icon_def try_app_icon_def)
  then have html: "notice_dialog p w s (manifest h) =
     Inr \<lparr>innerHTML = dialog_html (title p) (Some ''app-icon'') ms (prompt p)
                        (isError p) (buttons_or_default (buttons p)) w s,
          okButtonIdx = last_from is_ok_button 0 (buttons_or_default (buttons p)) (- 1),
          cancelButtonIdx = last_from is_cancel_button 0 (buttons_or_default (buttons p)) (- 1),
          promptOf = prompt p,
          buttonCount = length (buttons_or_default (buttons p))\<rparr>"
    using notice_dialog_Some [OF assms(2), of w s "manifest h"] by simp
  obtain a b where ab: "dialog_html (title p) (Some ''app-icon'') ms (prompt p)
      (isError p) (buttons_or_default (buttons p)) w s = a @ header_html (title p) (Some ''app-icon'') @ b"
    using dialog_html_header by blast
  have \<open>header_html (title p) (Some ''app-icon'') =
      (''    <h1>\<newline>'' @ ''        <span>'' @ title p @ ''</span>\<newline>'' @ ''        '') @
      ''<img src="app-icon" />'' @ (''\<newline>'' @ ''    </h1>\<newline>'')\<close>
    by (simp add: header_html_def img_html_def)
  then have \<open>dialog_html (title p) (Some ''app-icon'') ms (prompt p)
      (isError p) (buttons_or_default (buttons p)) w s =
      (a @ ''    <h1>\<newline>'' @ ''        <span>'' @ title p @ ''</span>\<newline>'' @ ''        '') @
      ''<img src="app-icon" />'' @ ((''\<newline>'' @ ''    </h1>\<newline>'') @ b)\<close>
    using ab by simp
  moreover obtain r where "fst (notice p w s h d) = Inr r"
    using notice_resolved [OF assms(2), of w s h d] by blast
  ultimately show ?thesis
    using html by (metis dialog.select_convs(1))
qed

text \<open>\<open>alertWithAppIcon\<close> when \<open>getPluginFolder\<close> rejects.\<close>

theorem C2_unresolved_manifest_witness:
  \<open>\<exists>dlg r pre post.
     notice_dialog \<lparr>title = ''About'', icon = Some ''app-icon'', msgs = Some [''M''], prompt = None,
                     isError = False, buttons = None\<rparr> 360 14 GetPluginFolderFails = Inr dlg \<and>
     fst (alertWithAppIcon ''About'' [''M'']
            \<lparr>manifest = GetPluginFolderFails, appendThrows = False, user = ButtonClick 0 []\<rparr>
            \<lparr>children = [], nextNode = 0\<rparr>) = Inr r \<and>
     innerHTML dlg = pre @ ''<img src="app-icon" />'' @ post\<close>
  using C2_unresolved_manifest_keeps_sentinel_icon
    [where p = "\<lparr>title = ''About'', icon = Some ''app-icon'', msgs = Some [''M''], prompt = None,
                  isError = False, buttons = None\<rparr>"
       and ms = "[''M'']"
       and h = "\<lparr>manifest = GetPluginFolderFails, appendThrows = False, user = ButtonClick 0 []\<rparr>"
       and w = 360 and s = 14 and d = "\<lparr>children = [], nextNode = 0\<rparr>"]
  by (simp add: alertWithAppIcon_def)















text \<open>
  Claim C8. The dialog that \<open>notice\<close> creates is a new node. When the call returns, on
  every path, that node is not in the document, and the document has the children it
  had before the call.
\<close>

theorem C8_dialog_removed_from_document:
  assumes "fst (createElement d) \<notin> set (children d)"
  shows "fst (createElement d) \<notin> set (children (snd (notice p w s h d))) \<and>
         children (snd (notice p w s h d)) = children d"
proof (cases "notice_dialog p w s (manifest h)")
  case (Inl e)
  then show ?thesis
    using assms by (simp add: notice_not_built createElement_def)
next
  case (Inr dlg)
  then show ?thesis
    using assms
    by (simp add: notice_built try_show_def remove_node_def appendChild_def createElement_def)
qed

text \<open>\<open>alert\<close> in a document with two other nodes.\<close>

theorem C8_dialog_removed_witness:
  "fst (createElement \<lparr>children = [3, 5], nextNode = 7\<rparr>) \<notin> set [3, 5] \<and>
   fst (createElement \<lparr>children = [3, 5], nextNode = 7\<rparr>) \<notin>
     set (children (snd (alert ''T'' [''M'']
            \<lparr>manifest = Parsed None, appendThrows = False, user = ButtonClick 0 []\<rparr>
            \<lparr>children = [3, 5], nextNode = 7\<rparr>))) \<and>
   children (snd (alert ''T'' [''M'']
            \<lparr>manifest = Parsed None, appendThrows = False, user = ButtonClick 0 []\<rparr>
            \<lparr>children = [3, 5], nextNode = 7\<rparr>)) = [3, 5]"
  using C8_dialog_removed_from_document
    [where d = "\<lparr>children = [3, 5], nextNode = 7\<rparr>"
       and p = "\<lparr>title = ''T'', icon = None, msgs = Some [''M''], prompt = None, isError = False,
                   buttons = None\<rparr>"
       and w = 360 and s = 14
       and h = "\<lparr>manifest = Parsed None, appendThrows = False, user = ButtonClick 0 []\<rparr>"]
  by (simp add: alert_def createElement_def)


text \<open>
  Claim C10. The footer interpolates the array of button elements without joining it: in
  the markup every two consecutive buttons stand with a comma between them. The
  messages are joined with the empty string and stand one right after the other.
\<close>

theorem C10_footer_comma_between_buttons:
  assumes "notice_dialog p w s env = Inr dlg"
    and "Suc i < length (buttons_or_default (buttons p))"
  shows "(\<exists>pre post. innerHTML dlg =
           pre @
           button_html i (buttons_or_default (buttons p) ! i) @ '','' @
           button_html (Suc i) (buttons_or_default (buttons p) ! Suc i) @
           post) \<and>
         (\<exists>ms pre post. msgs p = Some ms \<and>
            innerHTML dlg = pre @ concat (map msg_html ms) @ post)"
proof -
  obtain ms where ms: "msgs p = Some ms"
    using assms(1) notice_dialog_Inr_msgs by blast
  let ?bs = "buttons_or_default (buttons p)"
  have html: "innerHTML dlg =
      dialog_html (title p) (fst (app_icon env (icon p) s)) ms (prompt p) (isError p)
        ?bs w (snd (app_icon env (icon p) s))"
    using assms(1) notice_dialog_Some [OF ms, of w s env] by auto
  then obtain a b where ab: "innerHTML dlg = a @ buttons_html ?bs @ b"
    using dialog_html_buttons by metis
  obtain c e where "buttons_html ?bs =
      c @ button_html i (?bs ! i) @ '','' @ button_html (Suc i) (?bs ! Suc i) @ e"
    using buttons_html_pair [OF assms(2)] by blast
  then have "innerHTML dlg =
      (a @ c) @ button_html i (?bs ! i) @ '','' @ button_html (Suc i) (?bs ! Suc i) @ (e @ b)"
    using ab by simp
  then have footer: "\<exists>pre post. innerHTML dlg =
      pre @ button_html i (?bs ! i) @ '','' @ button_html (Suc i) (?bs ! Suc i) @ post"
    by blast
  obtain f g where "innerHTML dlg = f @ msgs_html ms @ g"
    using html dialog_html_msgs by metis
  then have "innerHTML dlg = f @ concat (map msg_html ms) @ g"
    by (simp add: msgs_html_def join_empty_sep)
  then show ?thesis
    using footer ms by blast
qed

text \<open>The two buttons of \<open>confirm\<close>.\<close>

theorem C10_footer_comma_witness:
  \<open>\<exists>dlg pre post.
     notice_dialog (confirm_params ''T'' ''M'' None) 360 14 (Parsed None) = Inr dlg \<and>
     innerHTML dlg =
       pre @
       ''<button id="btn0" type="reset" uxp-variant="primary">Cancel</button>'' @ '','' @
       ''<button id="btn1" type="submit" uxp-variant="cta">OK</button>'' @
       post\<close>
proof -
  let ?p = "confirm_params ''T'' ''M'' None"
  have m: "msgs ?p = Some [''M'']"
    by (simp add: confirm_params_def)
  obtain dlg where dlg: "notice_dialog ?p 360 14 (Parsed None) = Inr dlg"
    using notice_dialog_Some [OF m] by blast
  have len: "Suc 0 < length (buttons_or_default (buttons ?p))"
    by (simp add: confirm_params_def buttons_or_default_def)
  have b0: \<open>button_html 0 (buttons_or_default (buttons ?p) ! 0) =
      ''<button id="btn0" type="reset" uxp-variant="primary">Cancel</button>''\<close>
    by (simp add: confirm_params_def buttons_or_default_def button_html_def label_at_def
        labels_or_default_def number_to_string.simps digit_char_def)
  have b1: \<open>button_html (Suc 0) (buttons_or_default (buttons ?p) ! Suc 0) =
      ''<button id="btn1" type="submit" uxp-variant="cta">OK</button>''\<close>
    by (simp add: confirm_params_def buttons_or_default_def button_html_def label_at_def
        labels_or_default_def number_to_string.simps digit_char_def)
  show ?thesis
    using dlg C10_footer_comma_between_buttons [OF dlg len] unfolding b0 b1 by blast
qed

end
